theory Spec2Isabelle
  imports Complex_Main "HOL-Library.Log_Nat"
begin

section \<open>Strings\<close>

text \<open>
  Python strings are modelled as \<open>string\<close> (a list of bytes). \<open>str.lower\<close> is modelled on
  the ASCII letters, which is what the keyword and status comparisons of the program
  depend on; text outside ASCII is outside the model.
\<close>

definition lower_char :: "char \<Rightarrow> char" where
  "lower_char c =
     (let n = (of_char c :: nat) in if 65 \<le> n \<and> n \<le> 90 then char_of (n + 32) else c)"

definition lower :: "string \<Rightarrow> string" where
  "lower s = map lower_char s"

fun startswith :: "string \<Rightarrow> string \<Rightarrow> bool" where
  "startswith s [] = True"
| "startswith [] (w # ws) = False"
| "startswith (c # cs) (w # ws) = (c = w \<and> startswith cs ws)"

text \<open>\<open>contains s w\<close> is Python's \<open>w in s\<close> on strings: \<open>w\<close> occurs in \<open>s\<close> as a substring.\<close>

fun contains :: "string \<Rightarrow> string \<Rightarrow> bool" where
  "contains [] w = (w = [])"
| "contains (c # cs) w = (startswith (c # cs) w \<or> contains cs w)"

text \<open>\<open>any_in s ws\<close> is \<open>any(word in s for word in ws)\<close>.\<close>

definition any_in :: "string \<Rightarrow> string list \<Rightarrow> bool" where
  "any_in s ws = list_ex (contains s) ws"

text \<open>\<open>str(n)\<close> for a Python integer: decimal digits, with a minus sign when negative.\<close>

definition digit_char :: "nat \<Rightarrow> char" where
  "digit_char d = char_of (48 + d)"

fun str_nat :: "nat \<Rightarrow> string" where
  "str_nat n = (if n < 10 then [digit_char n] else str_nat (n div 10) @ [digit_char (n mod 10)])"

definition str_int :: "int \<Rightarrow> string" where
  "str_int i = (if i < 0 then CHR ''-'' # str_nat (nat (- i)) else str_nat (nat i))"

section \<open>Calendar dates: \<open>datetime.strptime(s, '%Y-%m-%d')\<close>\<close>

text \<open>
  A parsed date is the triple (year, month, day); the time of day is always midnight for
  this format, so it is left out. The helpers follow the \<open>datetime\<close> module:
  \<open>_is_leap\<close>, \<open>_days_in_month\<close>, \<open>_days_before_year\<close>, \<open>_days_before_month\<close>
  and \<open>_ymd2ord\<close> (the proleptic Gregorian ordinal, 1 for 0001-01-01). The two tables
  are indexed by the month, from 1; their entry at index 0 is a placeholder that is never
  read.
\<close>

type_synonym pydate = "nat \<times> nat \<times> nat"

definition is_leap :: "nat \<Rightarrow> bool" where
  "is_leap y = (y mod 4 = 0 \<and> (y mod 100 \<noteq> 0 \<or> y mod 400 = 0))"

definition DAYS_IN_MONTH :: "nat list" where
  "DAYS_IN_MONTH = [0, 31, 28, 31, 30, 31, 30, 31, 31, 30, 31, 30, 31]"

definition DAYS_BEFORE_MONTH :: "nat list" where
  "DAYS_BEFORE_MONTH = [0, 0, 31, 59, 90, 120, 151, 181, 212, 243, 273, 304, 334]"

definition days_in_month :: "nat \<Rightarrow> nat \<Rightarrow> nat" where
  "days_in_month y m = (if m = 2 \<and> is_leap y then 29 else DAYS_IN_MONTH ! m)"

definition days_before_year :: "nat \<Rightarrow> int" where
  "days_before_year year =
     (let y = int year - 1 in y * 365 + y div 4 - y div 100 + y div 400)"

definition days_before_month :: "nat \<Rightarrow> nat \<Rightarrow> int" where
  "days_before_month y m =
     int (DAYS_BEFORE_MONTH ! m) + (if m > 2 \<and> is_leap y then 1 else 0)"

definition toordinal :: "pydate \<Rightarrow> int" where
  "toordinal dt = (case dt of (y, m, d) \<Rightarrow> days_before_year y + days_before_month y m + int d)"

text \<open>
  \<open>(a - b).days\<close> for two midnights is the difference of their ordinals (it is negative
  when \<open>a\<close> is the earlier date).
\<close>

definition days_between :: "pydate \<Rightarrow> pydate \<Rightarrow> int" where
  "days_between a b = toordinal a - toordinal b"

text \<open>Comparison of two \<open>datetime\<close> values compares (year, month, day, ...) lexicographically.\<close>

definition date_le :: "pydate \<Rightarrow> pydate \<Rightarrow> bool" where
  "date_le a b =
     (case a of (y1, m1, d1) \<Rightarrow> case b of (y2, m2, d2) \<Rightarrow>
        y1 < y2 \<or> (y1 = y2 \<and> (m1 < m2 \<or> (m1 = m2 \<and> d1 \<le> d2))))"

text \<open>
  The dates that \<open>strptime\<close> can return: the year is at least 1 (\<open>MINYEAR\<close>), the
  month is between 1 and 12 and the day exists in that month.
\<close>

definition valid_date :: "pydate \<Rightarrow> bool" where
  "valid_date dt =
     (case dt of (y, m, d) \<Rightarrow> 1 \<le> y \<and> 1 \<le> m \<and> m \<le> 12 \<and> 1 \<le> d \<and> d \<le> days_in_month y m)"

definition is_digit :: "char \<Rightarrow> bool" where
  "is_digit c = (let n = (of_char c :: nat) in 48 \<le> n \<and> n \<le> 57)"

definition digit_val :: "char \<Rightarrow> nat" where
  "digit_val c = of_char c - 48"

definition in_range :: "char \<Rightarrow> nat \<Rightarrow> nat \<Rightarrow> bool" where
  "in_range c lo hi = (is_digit c \<and> lo \<le> digit_val c \<and> digit_val c \<le> hi)"

text \<open>
  The directive \<open>%m\<close> is the regular expression \<open>1[0-2]|0[1-9]|[1-9]\<close>; the alternatives
  are tried in this order. The result is the month and the rest of the input.
\<close>

fun match_month :: "string \<Rightarrow> (nat \<times> string) option" where
  "match_month (a # b # r) =
     (if a = CHR ''1'' \<and> in_range b 0 2 then Some (10 + digit_val b, r)
      else if a = CHR ''0'' \<and> in_range b 1 9 then Some (digit_val b, r)
      else if in_range a 1 9 then Some (digit_val a, b # r)
      else None)"
| "match_month [a] = (if in_range a 1 9 then Some (digit_val a, []) else None)"
| "match_month [] = None"

text \<open>
  The directive \<open>%d\<close> is \<open>3[0-1]|[1-2]\d|0[1-9]|[1-9]| [1-9]\<close> (the last alternative
  is a space followed by a digit).
\<close>

fun match_day :: "string \<Rightarrow> (nat \<times> string) option" where
  "match_day (a # b # r) =
     (if a = CHR ''3'' \<and> in_range b 0 1 then Some (30 + digit_val b, r)
      else if in_range a 1 2 \<and> is_digit b then Some (10 * digit_val a + digit_val b, r)
      else if a = CHR ''0'' \<and> in_range b 1 9 then Some (digit_val b, r)
      else if in_range a 1 9 then Some (digit_val a, b # r)
      else if a = CHR '' '' \<and> in_range b 1 9 then Some (digit_val b, r)
      else None)"
| "match_day [a] = (if in_range a 1 9 then Some (digit_val a, []) else None)"
| "match_day [] = None"

text \<open>
  \<open>strptime\<close> returns \<open>None\<close> where Python raises \<open>ValueError\<close>: the text does not match
  the format, text remains after the match, the year is 0 or the day does not exist in
  the month.
\<close>

definition strptime :: "string \<Rightarrow> pydate option" where
  "strptime s =
     (case s of
        y1 # y2 # y3 # y4 # sep1 # rest \<Rightarrow>
          if is_digit y1 \<and> is_digit y2 \<and> is_digit y3 \<and> is_digit y4 \<and> sep1 = CHR ''-'' then
            (case match_month rest of
               None \<Rightarrow> None
             | Some (m, rest1) \<Rightarrow>
                 (case rest1 of
                    [] \<Rightarrow> None
                  | sep2 # rest2 \<Rightarrow>
                      if sep2 = CHR ''-'' then
                        (case match_day rest2 of
                           None \<Rightarrow> None
                         | Some (d, rest3) \<Rightarrow>
                             (let y = 1000 * digit_val y1 + 100 * digit_val y2
                                      + 10 * digit_val y3 + digit_val y4
                              in if rest3 = [] \<and> 1 \<le> y \<and> d \<le> days_in_month y m
                                 then Some (y, m, d) else None))
                      else None))
          else None
      | _ \<Rightarrow> None)"

section \<open>Floating-point numbers\<close>

text \<open>
  Python's \<open>float\<close> is IEEE 754 binary64. A finite value is modelled by the rational
  number it denotes (the two zeros are not distinguished: they compare equal in Python);
  \<open>round64\<close> rounds an exact result to the nearest representable value, ties to even,
  with gradual underflow and overflow to infinity.
\<close>

datatype pyfloat = Fin rat | PInf | NInf | NaN

definition pow2 :: "int \<Rightarrow> rat" where
  "pow2 e = (if 0 \<le> e then 2 ^ nat e else 1 / 2 ^ nat (- e))"

text \<open>\<open>floor_log2 q\<close> is the integer \<open>e\<close> with \<open>2^e \<le> q < 2^(e+1)\<close>, for \<open>q > 0\<close>.\<close>

definition floor_log2 :: "rat \<Rightarrow> int" where
  "floor_log2 q = (if 1 \<le> q then bitlen \<lfloor>q\<rfloor> - 1 else - bitlen (\<lceil>1 / q\<rceil> - 1))"

definition round_half_even :: "rat \<Rightarrow> int" where
  "round_half_even x =
     (let f = \<lfloor>x\<rfloor>; d = x - of_int f
      in if d < 1 / 2 then f else if 1 / 2 < d then f + 1 else if even f then f else f + 1)"

text \<open>
  The magnitude \<open>a > 0\<close> is rounded to \<open>n\<close> units of \<open>2^(e - 52)\<close>, where \<open>e\<close> is its
  binary exponent, not below that of the smallest normal number. The result reaches
  \<open>2^1024\<close>, and so overflows, when \<open>e\<close> exceeds 1023 or the rounding carries out of the
  top binade.
\<close>

definition round64 :: "rat \<Rightarrow> pyfloat" where
  "round64 q =
     (if q = 0 then Fin 0
      else let a = \<bar>q\<bar>;
               e = max (floor_log2 a) (- 1022);
               n = round_half_even (a / pow2 (e - 52))
           in if 1023 < e \<or> (e = 1023 \<and> 2 ^ 53 \<le> n) then (if 0 < q then PInf else NInf)
              else Fin ((if 0 < q then 1 else - 1) * of_int n * pow2 (e - 52)))"

fun fadd :: "pyfloat \<Rightarrow> pyfloat \<Rightarrow> pyfloat" where
  "fadd NaN y = NaN"
| "fadd x NaN = NaN"
| "fadd PInf NInf = NaN"
| "fadd NInf PInf = NaN"
| "fadd PInf y = PInf"
| "fadd x PInf = PInf"
| "fadd NInf y = NInf"
| "fadd x NInf = NInf"
| "fadd (Fin a) (Fin b) = round64 (a + b)"

definition fneg :: "pyfloat \<Rightarrow> pyfloat" where
  "fneg x = (case x of Fin a \<Rightarrow> Fin (- a) | PInf \<Rightarrow> NInf | NInf \<Rightarrow> PInf | NaN \<Rightarrow> NaN)"

text \<open>An infinity times a finite value: the sign of the product, or NaN for zero.\<close>

definition inf_times :: "pyfloat \<Rightarrow> rat \<Rightarrow> pyfloat" where
  "inf_times i a = (if a = 0 then NaN else if 0 < a then i else fneg i)"

fun fmul :: "pyfloat \<Rightarrow> pyfloat \<Rightarrow> pyfloat" where
  "fmul NaN y = NaN"
| "fmul x NaN = NaN"
| "fmul (Fin a) (Fin b) = round64 (a * b)"
| "fmul (Fin a) PInf = inf_times PInf a"
| "fmul (Fin a) NInf = inf_times NInf a"
| "fmul PInf (Fin b) = inf_times PInf b"
| "fmul NInf (Fin b) = inf_times NInf b"
| "fmul PInf PInf = PInf"
| "fmul NInf NInf = PInf"
| "fmul PInf NInf = NInf"
| "fmul NInf PInf = NInf"

text \<open>
  \<open>fdiv_by d x\<close> is \<open>x / d\<close> for a finite divisor \<open>d\<close> other than zero. The program only
  divides by the literal 100, so Python's \<open>ZeroDivisionError\<close> cannot arise.
\<close>

definition fdiv_by :: "rat \<Rightarrow> pyfloat \<Rightarrow> pyfloat" where
  "fdiv_by d x =
     (case x of
        Fin a \<Rightarrow> round64 (a / d)
      | PInf \<Rightarrow> (if 0 < d then PInf else NInf)
      | NInf \<Rightarrow> (if 0 < d then NInf else PInf)
      | NaN \<Rightarrow> NaN)"

section \<open>The room ledger (\<open>booking_server.py\<close>)\<close>

text \<open>
  The ledger is the data frame \<open>df\<close>: a list of rows in file order, one per room, with the
  columns of \<open>COLUMN_ORDER\<close>. After loading, every text column is a string and every
  price a finite float. \<open>_save_csv\<close> writes \<open>df\<close> to the file and leaves \<open>df\<close> itself
  unchanged, so an operation is modelled by the data frame it leaves in memory together
  with what it returns or raises.
\<close>

record room =
  room_number :: int
  room_type :: string
  availability :: string
  name_of_guest :: string
  number_of_people :: string
  extra_facility :: string
  check_in_date :: string
  check_out_date :: string
  price :: rat
  reserved_for_upselling :: string

type_synonym ledger = "room list"

text \<open>
  \<open>HTTPException status detail\<close> is the exception the endpoints raise themselves;
  \<open>ValueError\<close> is the exception of \<open>strptime\<close> where no handler catches it.
\<close>

datatype error = HTTPException nat string | ValueError

record booking_request =
  br_guest_id :: int
  br_room_number :: int
  br_check_in_date :: string
  br_check_out_date :: string
  br_number_of_adults :: int
  br_purpose_of_visit :: string

record booking_response =
  booking_id :: string
  guest_id :: int
  resp_room_number :: int
  resp_room_type :: string
  resp_check_in_date :: string
  resp_check_out_date :: string
  number_of_adults :: int
  purpose_of_visit :: string
  total_cost :: pyfloat
  booking_status :: string

record room_update =
  ru_room_number :: int
  ru_availability :: string
  ru_guest_name :: string
  ru_number_of_people :: "int + string"
  ru_check_in_date :: string
  ru_check_out_date :: string
  ru_extra_facility :: string

text \<open>\<open>select_rows df n\<close> is \<open>df[df["Room Number"] == n]\<close>.\<close>

definition select_rows :: "ledger \<Rightarrow> int \<Rightarrow> room list" where
  "select_rows df n = filter (\<lambda>r. room_number r = n) df"

text \<open>\<open>assign_rows df n f\<close> is \<open>df.loc[df["Room Number"] == n, columns] = values\<close>.\<close>

definition assign_rows :: "ledger \<Rightarrow> int \<Rightarrow> (room \<Rightarrow> room) \<Rightarrow> ledger" where
  "assign_rows df n f = map (\<lambda>r. if room_number r = n then f r else r) df"

definition is_available :: "room \<Rightarrow> bool" where
  "is_available r = (lower (availability r) = ''available'')"

definition is_reserved :: "room \<Rightarrow> bool" where
  "is_reserved r = (lower (reserved_for_upselling r) = ''yes'')"

definition not_found :: "int \<Rightarrow> error" where
  "not_found n = HTTPException 404 (''Room '' @ str_int n @ '' not found'')"

subsection \<open>Listings\<close>

text \<open>
  \<open>frees_by ci r\<close>: the stored check-out date of the row parses and is on or before the
  date \<open>ci\<close>. \<open>is_booked\<close> is the test of the endpoint \<open>occupied_rooms\<close>.
\<close>

definition frees_by :: "pydate \<Rightarrow> room \<Rightarrow> bool" where
  "frees_by ci r = (case strptime (check_out_date r) of Some d \<Rightarrow> date_le d ci | None \<Rightarrow> False)"

definition is_booked :: "room \<Rightarrow> bool" where
  "is_booked r = (lower (availability r) = ''booked'')"

definition available_rooms :: "ledger \<Rightarrow> room list" where
  "available_rooms df =
     filter (\<lambda>r. lower (availability r) = ''available''
                 \<and> lower (reserved_for_upselling r) = ''no'') df"

text \<open>
  The loop of \<open>available_rooms_for_dates\<close> over the rows, with the parsed requested
  check-in date. A stored check-out date that does not parse is skipped by the bare
  \<open>except\<close>.
\<close>

fun rooms_for_dates :: "pydate \<Rightarrow> room list \<Rightarrow> room list" where
  "rooms_for_dates ci [] = []"
| "rooms_for_dates ci (room # rest) =
     (if lower (reserved_for_upselling room) = ''yes'' then rooms_for_dates ci rest
      else if lower (availability room) = ''available'' then room # rooms_for_dates ci rest
      else if check_out_date room \<noteq> [] then
        (case strptime (check_out_date room) of
           Some room_checkout \<Rightarrow>
             if date_le room_checkout ci then room # rooms_for_dates ci rest
             else rooms_for_dates ci rest
         | None \<Rightarrow> rooms_for_dates ci rest)
      else rooms_for_dates ci rest)"

definition invalid_date_format :: error where
  "invalid_date_format = HTTPException 400 ''Invalid date format. Use YYYY-MM-DD''"

definition available_rooms_for_dates :: "ledger \<Rightarrow> string \<Rightarrow> string \<Rightarrow> error + room list" where
  "available_rooms_for_dates df check_in check_out =
     (case strptime check_in of
        None \<Rightarrow> Inl invalid_date_format
      | Some ci \<Rightarrow>
          (case strptime check_out of
             None \<Rightarrow> Inl invalid_date_format
           | Some co \<Rightarrow> Inr (rooms_for_dates ci df)))"

text \<open>
  The rows of the upselling listings are dictionaries with added keys. \<open>_json_ready\<close>
  turns a NaN into the empty string and leaves every other float as it is; the Boolean
  \<open>is_premium_upselling\<close> leaves it as the integer 1 or 0.
\<close>

datatype jval = JFloat pyfloat | JInt int | JStr string

definition json_num :: "pyfloat \<Rightarrow> jval" where
  "json_num v = (if v = NaN then JStr [] else JFloat v)"

record upsell_room =
  row :: room
  Price :: jval
  original_price :: jval
  is_premium_upselling :: bool
  markup_percentage :: jval

text \<open>\<open>original_price * (1 + markup_percentage / 100)\<close>\<close>

definition markup_price :: "pyfloat \<Rightarrow> pyfloat \<Rightarrow> pyfloat" where
  "markup_price original m = fmul original (fadd (Fin 1) (fdiv_by 100 m))"

definition upsell_dict :: "pyfloat \<Rightarrow> room \<Rightarrow> upsell_room" where
  "upsell_dict m room =
     (if lower (reserved_for_upselling room) = ''yes'' then
        \<lparr>row = room, Price = json_num (markup_price (Fin (price room)) m),
         original_price = json_num (Fin (price room)),
         is_premium_upselling = True, markup_percentage = json_num m\<rparr>
      else
        \<lparr>row = room, Price = json_num (Fin (price room)),
         original_price = json_num (Fin (price room)),
         is_premium_upselling = False, markup_percentage = JInt 0\<rparr>)"

definition available_rooms_with_upselling :: "ledger \<Rightarrow> pyfloat \<Rightarrow> upsell_room list" where
  "available_rooms_with_upselling df m =
     map (upsell_dict m) (filter (\<lambda>r. lower (availability r) = ''available'') df)"

fun rooms_for_dates_upselling :: "pydate \<Rightarrow> pyfloat \<Rightarrow> room list \<Rightarrow> upsell_room list" where
  "rooms_for_dates_upselling ci m [] = []"
| "rooms_for_dates_upselling ci m (room # rest) =
     (if lower (availability room) = ''available'' then
        upsell_dict m room # rooms_for_dates_upselling ci m rest
      else if check_out_date room \<noteq> [] then
        (case strptime (check_out_date room) of
           Some room_checkout \<Rightarrow>
             if date_le room_checkout ci then
               upsell_dict m room # rooms_for_dates_upselling ci m rest
             else rooms_for_dates_upselling ci m rest
         | None \<Rightarrow> rooms_for_dates_upselling ci m rest)
      else rooms_for_dates_upselling ci m rest)"

definition available_rooms_for_dates_with_upselling ::
  "ledger \<Rightarrow> string \<Rightarrow> string \<Rightarrow> pyfloat \<Rightarrow> error + upsell_room list" where
  "available_rooms_for_dates_with_upselling df check_in check_out m =
     (case strptime check_in of
        None \<Rightarrow> Inl invalid_date_format
      | Some ci \<Rightarrow>
          (case strptime check_out of
             None \<Rightarrow> Inl invalid_date_format
           | Some co \<Rightarrow> Inr (rooms_for_dates_upselling ci m df)))"

subsection \<open>Operations that change the ledger\<close>

text \<open>
  \<open>create_booking\<close> writes the row before it parses the dates, so a date that does not
  parse leaves the room booked in memory and raises \<open>ValueError\<close>. The argument \<open>now\<close>
  is \<open>datetime.now().strftime('%Y%m%d%H%M')\<close>.
\<close>

definition book_row :: "booking_request \<Rightarrow> room \<Rightarrow> room" where
  "book_row b r =
     r\<lparr>availability := ''Booked'',
       name_of_guest := ''Guest_'' @ str_int (br_guest_id b),
       check_in_date := br_check_in_date b,
       check_out_date := br_check_out_date b\<rparr>"

definition create_booking ::
  "string \<Rightarrow> ledger \<Rightarrow> booking_request \<Rightarrow> ledger \<times> (error + booking_response)" where
  "create_booking now df b =
     (case select_rows df (br_room_number b) of
        [] \<Rightarrow> (df, Inl (not_found (br_room_number b)))
      | row0 # others \<Rightarrow>
          if lower (availability row0) \<noteq> ''available'' then
            (df, Inl (HTTPException 400 ''Room is not available''))
          else
            let df' = assign_rows df (br_room_number b) (book_row b) in
            (case strptime (br_check_out_date b) of
               None \<Rightarrow> (df', Inl ValueError)
             | Some co \<Rightarrow>
                 (case strptime (br_check_in_date b) of
                    None \<Rightarrow> (df', Inl ValueError)
                  | Some ci \<Rightarrow>
                      let nights = days_between co ci;
                          cost = fmul (Fin (price row0)) (Fin (of_int nights))
                      in (df', Inr \<lparr>booking_id = ''BK'' @ str_int (br_guest_id b)
                                       @ str_int (br_room_number b) @ now,
                                     guest_id = br_guest_id b,
                                     resp_room_number = br_room_number b,
                                     resp_room_type = room_type row0,
                                     resp_check_in_date = br_check_in_date b,
                                     resp_check_out_date = br_check_out_date b,
                                     number_of_adults = br_number_of_adults b,
                                     purpose_of_visit = br_purpose_of_visit b,
                                     total_cost = cost,
                                     booking_status = ''Confirmed''\<rparr>))))"

text \<open>Python's \<open>a or b\<close> on strings: \<open>a\<close> unless it is empty.\<close>

definition py_or :: "string \<Rightarrow> string \<Rightarrow> string" where
  "py_or a b = (if a \<noteq> [] then a else b)"

definition str_people :: "int + string \<Rightarrow> string" where
  "str_people v = (case v of Inl i \<Rightarrow> str_int i | Inr s \<Rightarrow> s)"

definition update_row :: "room_update \<Rightarrow> room \<Rightarrow> room \<Rightarrow> room" where
  "update_row payload row0 r =
     r\<lparr>availability := py_or (ru_availability payload) (availability row0),
       name_of_guest := py_or (ru_guest_name payload) (name_of_guest row0),
       number_of_people := py_or (str_people (ru_number_of_people payload)) (number_of_people row0),
       extra_facility := py_or (ru_extra_facility payload) (extra_facility row0),
       check_in_date := py_or (ru_check_in_date payload) (check_in_date row0),
       check_out_date := py_or (ru_check_out_date payload) (check_out_date row0)\<rparr>"

definition update_guest :: "ledger \<Rightarrow> int \<Rightarrow> room_update \<Rightarrow> ledger \<times> (error + string)" where
  "update_guest df n payload =
     (case select_rows df n of
        [] \<Rightarrow> (df, Inl (not_found n))
      | row0 # others \<Rightarrow>
          (assign_rows df n (update_row payload row0),
           Inr (''Room '' @ str_int n @ '' updated'')))"

definition clear_row :: "room \<Rightarrow> room" where
  "clear_row r =
     r\<lparr>availability := ''Available'', name_of_guest := [], number_of_people := [],
       extra_facility := [], check_in_date := [], check_out_date := []\<rparr>"

definition cancel_booking :: "ledger \<Rightarrow> int \<Rightarrow> ledger \<times> (error + string)" where
  "cancel_booking df n =
     (case select_rows df n of
        [] \<Rightarrow> (df, Inl (not_found n))
      | row0 # others \<Rightarrow>
          (assign_rows df n clear_row,
           Inr (''Booking cancelled for room '' @ str_int n)))"

section \<open>The context analyzer (\<open>hotel_mcp_sse_server.py\<close>)\<close>

text \<open>
  The guest record is the dictionary \<open>guest_data\<close>; a key that is absent reads as the
  empty string (\<open>guest_data.get(key, '')\<close>). Only the text fields that the lifestyle and
  satisfaction bundles read are kept.
\<close>

record guest =
  profession :: string
  amenities_used :: string
  extra_activities_booked :: string
  feedback_and_issues :: string
  special_requests :: string

record lifestyle =
  activity_level :: string
  wellness_focus :: string
  business_orientation :: string
  social_preference :: string
  interests :: "string list"

definition profession_rules :: "string \<Rightarrow> lifestyle \<Rightarrow> lifestyle" where
  "profession_rules prof l =
     (if any_in prof [''executive'', ''manager'', ''director'', ''ceo'', ''business''] then
        l\<lparr>business_orientation := ''high'',
          interests := interests l @ [''business_facilities'', ''executive_services'', ''networking'']\<rparr>
      else if any_in prof [''doctor'', ''engineer'', ''consultant'', ''lawyer''] then
        l\<lparr>business_orientation := ''moderate-high'',
          interests := interests l @ [''professional_services'', ''quiet_environment'']\<rparr>
      else if any_in prof [''teacher'', ''nurse'', ''social''] then
        l\<lparr>social_preference := ''high'',
          interests := interests l @ [''community_activities'', ''social_spaces'']\<rparr>
      else l)"

text \<open>The three tests on the amenities are independent \<open>if\<close> statements, run in this order.\<close>

definition amenity_wellness :: "string \<Rightarrow> lifestyle \<Rightarrow> lifestyle" where
  "amenity_wellness am l =
     (if any_in am [''spa'', ''massage'', ''wellness'', ''gym'', ''fitness''] then
        l\<lparr>wellness_focus := ''high'', activity_level := ''high'',
          interests := interests l @ [''wellness'', ''fitness'', ''relaxation'']\<rparr>
      else l)"

definition amenity_pool :: "string \<Rightarrow> lifestyle \<Rightarrow> lifestyle" where
  "amenity_pool am l =
     (if any_in am [''pool'', ''swimming''] then
        l\<lparr>activity_level := ''moderate-high'',
          interests := interests l @ [''recreational_swimming'']\<rparr>
      else l)"

definition amenity_business :: "string \<Rightarrow> lifestyle \<Rightarrow> lifestyle" where
  "amenity_business am l =
     (if any_in am [''business'', ''meeting'', ''conference''] then
        l\<lparr>business_orientation := ''high'',
          interests := interests l @ [''business_facilities'', ''meeting_spaces'']\<rparr>
      else l)"

definition amenity_rules :: "string \<Rightarrow> lifestyle \<Rightarrow> lifestyle" where
  "amenity_rules am l =
     (if am \<noteq> [] then amenity_business am (amenity_pool am (amenity_wellness am l)) else l)"

definition activity_tour :: "string \<Rightarrow> lifestyle \<Rightarrow> lifestyle" where
  "activity_tour act l =
     (if any_in act [''tour'', ''sightseeing'', ''cultural''] then
        l\<lparr>social_preference := ''high'',
          interests := interests l @ [''cultural_experiences'', ''local_tours'']\<rparr>
      else l)"

definition activity_adventure :: "string \<Rightarrow> lifestyle \<Rightarrow> lifestyle" where
  "activity_adventure act l =
     (if any_in act [''adventure'', ''sports'', ''hiking''] then
        l\<lparr>activity_level := ''high'',
          interests := interests l @ [''adventure_sports'', ''outdoor_activities'']\<rparr>
      else l)"

definition activity_dining :: "string \<Rightarrow> lifestyle \<Rightarrow> lifestyle" where
  "activity_dining act l =
     (if any_in act [''dining'', ''restaurant'', ''food''] then
        l\<lparr>interests := interests l @ [''culinary_experiences'']\<rparr>
      else l)"

definition activity_rules :: "string \<Rightarrow> lifestyle \<Rightarrow> lifestyle" where
  "activity_rules act l =
     (if act \<noteq> [] then activity_dining act (activity_adventure act (activity_tour act l)) else l)"

definition analyze_lifestyle :: "string \<Rightarrow> string \<Rightarrow> string \<Rightarrow> lifestyle" where
  "analyze_lifestyle prof am act =
     activity_rules act (amenity_rules am (profession_rules prof
       \<lparr>activity_level = ''moderate'', wellness_focus = ''low'', business_orientation = ''low'',
        social_preference = ''moderate'', interests = []\<rparr>))"

record satisfaction =
  overall_sentiment :: string
  service_sensitivity :: string
  complaint_patterns :: "string list"
  praise_patterns :: "string list"
  attention_to_detail :: string

definition sentiment_of :: "string \<Rightarrow> string" where
  "sentiment_of fb =
     (if any_in fb [''excellent'', ''amazing'', ''perfect'', ''loved'', ''wonderful''] then ''very_positive''
      else if any_in fb [''good'', ''nice'', ''pleasant'', ''satisfied''] then ''positive''
      else if any_in fb [''terrible'', ''awful'', ''horrible'', ''worst''] then ''very_negative''
      else if any_in fb [''bad'', ''poor'', ''disappointed'', ''unsatisfied''] then ''negative''
      else ''neutral'')"

definition complaints_of :: "string \<Rightarrow> string list" where
  "complaints_of fb =
     (if any_in fb [''noise'', ''loud'', ''disturbing''] then [''noise_issues''] else [])
     @ (if any_in fb [''dirty'', ''clean'', ''hygiene''] then [''cleanliness_issues''] else [])
     @ (if any_in fb [''slow'', ''wait'', ''delay''] then [''service_speed_issues''] else [])"

definition analyze_satisfaction :: "string \<Rightarrow> string \<Rightarrow> satisfaction" where
  "analyze_satisfaction fb sr =
     \<lparr>overall_sentiment = (if fb \<noteq> [] then sentiment_of fb else ''neutral''),
      service_sensitivity =
        (if fb \<noteq> [] \<and> any_in fb [''staff'', ''service'', ''attitude'', ''helpful''] then ''high''
         else ''moderate''),
      complaint_patterns = (if fb \<noteq> [] then complaints_of fb else []),
      praise_patterns = [],
      attention_to_detail = (if sr \<noteq> [] \<and> 20 < length sr then ''high'' else ''moderate'')\<rparr>"

text \<open>
  The two entries of \<open>_perform_deep_context_analysis\<close>: every text field is put into
  lower case before it is analysed.
\<close>

definition lifestyle_profile :: "guest \<Rightarrow> lifestyle" where
  "lifestyle_profile g =
     analyze_lifestyle (lower (profession g)) (lower (amenities_used g))
       (lower (extra_activities_booked g))"

definition satisfaction_insights :: "guest \<Rightarrow> satisfaction" where
  "satisfaction_insights g =
     analyze_satisfaction (lower (feedback_and_issues g)) (lower (special_requests g))"

section \<open>The specification's wording of two rules\<close>

text \<open>
  These two definitions follow the words of the specification, not the source; they are
  what the program is compared with.
\<close>

text \<open>
  Rows currently available, plus rows currently booked whose stored check-out date is on
  or before the requested check-in date.
\<close>

definition spec_list_available_for_range :: "ledger \<Rightarrow> pydate \<Rightarrow> room list" where
  "spec_list_available_for_range df ci =
     filter (\<lambda>r. is_available r \<or> (is_booked r \<and> frees_by ci r)) df"

text \<open>High above 30 characters, moderate-high above 10, moderate otherwise.\<close>

definition spec_attention_to_detail :: "string \<Rightarrow> string" where
  "spec_attention_to_detail sr =
     (if 30 < length sr then ''high'' else if 10 < length sr then ''moderate-high''
      else ''moderate'')"

section \<open>The ledger invariant\<close>

text \<open>
  A room is available exactly when its guest name, both dates and the extra-facility text
  are empty.
\<close>

definition room_inv :: "room \<Rightarrow> bool" where
  "room_inv r =
     (is_available r \<longleftrightarrow>
        (name_of_guest r = [] \<and> check_in_date r = [] \<and> check_out_date r = []
         \<and> extra_facility r = []))"

definition ledger_inv :: "ledger \<Rightarrow> bool" where
  "ledger_inv df = list_all room_inv df"

section \<open>Sample data\<close>

definition room_101 :: room where
  "room_101 =
     \<lparr>room_number = 101, room_type = ''Deluxe'', availability = ''Available'',
      name_of_guest = [], number_of_people = [], extra_facility = [],
      check_in_date = [], check_out_date = [], price = 3500,
      reserved_for_upselling = ''No''\<rparr>"

definition room_201 :: room where
  "room_201 =
     \<lparr>room_number = 201, room_type = ''Standard'', availability = ''Booked'',
      name_of_guest = ''Guest_12'', number_of_people = ''2'', extra_facility = ''Breakfast'',
      check_in_date = ''2025-07-05'', check_out_date = ''2025-07-10'', price = 2500,
      reserved_for_upselling = ''No''\<rparr>"

definition room_301 :: room where
  "room_301 =
     \<lparr>room_number = 301, room_type = ''Suite'', availability = ''Available'',
      name_of_guest = [], number_of_people = [], extra_facility = [],
      check_in_date = [], check_out_date = [], price = 5000,
      reserved_for_upselling = ''Yes''\<rparr>"

definition room_401 :: room where
  "room_401 =
     \<lparr>room_number = 401, room_type = ''Suite'', availability = ''Booked'',
      name_of_guest = ''Guest_30'', number_of_people = ''2'', extra_facility = [],
      check_in_date = ''2025-07-01'', check_out_date = ''2025-07-03'', price = 6000,
      reserved_for_upselling = ''Yes''\<rparr>"

definition booking_of :: "string \<Rightarrow> string \<Rightarrow> booking_request" where
  "booking_of check_in check_out =
     \<lparr>br_guest_id = 7, br_room_number = 101, br_check_in_date = check_in,
      br_check_out_date = check_out, br_number_of_adults = 2,
      br_purpose_of_visit = ''Leisure''\<rparr>"

text \<open>
  The payload that the staff interface sends to free a room: status \<open>Available\<close> and every
  other field empty.
\<close>

definition checkout_payload :: "int \<Rightarrow> room_update" where
  "checkout_payload n =
     \<lparr>ru_room_number = n, ru_availability = ''Available'', ru_guest_name = [],
      ru_number_of_people = Inr [], ru_check_in_date = [], ru_check_out_date = [],
      ru_extra_facility = []\<rparr>"

definition guest_spa_pool :: guest where
  "guest_spa_pool =
     \<lparr>profession = ''Teacher'', amenities_used = ''Spa, Pool'', extra_activities_booked = [],
      feedback_and_issues = [], special_requests = []\<rparr>"

definition guest_spa :: guest where
  "guest_spa =
     \<lparr>profession = ''Teacher'', amenities_used = ''Spa'', extra_activities_booked = [],
      feedback_and_issues = [], special_requests = []\<rparr>"

definition guest_requests :: "string \<Rightarrow> guest" where
  "guest_requests sr =
     \<lparr>profession = [], amenities_used = [], extra_activities_booked = [],
      feedback_and_issues = [], special_requests = sr\<rparr>"

section \<open>Properties of the ledger operations\<close>

subsection \<open>Basic facts\<close>

lemma lower_Booked: "lower ''Booked'' = ''booked''"
  by code_simp

lemma lower_Available: "lower ''Available'' = ''available''"
  by code_simp

lemma strptime_Nil [simp]: "strptime [] = None"
  by (simp add: strptime_def)

lemma book_row_number [simp]: "room_number (book_row b r) = room_number r"
  by (simp add: book_row_def)

lemma book_row_not_available [simp]: "\<not> is_available (book_row b r)"
  by (simp add: book_row_def is_available_def lower_Booked)

lemma clear_row_number [simp]: "room_number (clear_row r) = room_number r"
  by (simp add: clear_row_def)

lemma clear_row_available [simp]: "is_available (clear_row r)"
  by (simp add: clear_row_def is_available_def lower_Available)

lemma clear_row_reserved [simp]:
  "reserved_for_upselling (clear_row r) = reserved_for_upselling r"
  by (simp add: clear_row_def)

lemma set_assign_rows:
  "set (assign_rows df n f) = (\<lambda>r0. if room_number r0 = n then f r0 else r0) ` set df"
  by (simp add: assign_rows_def)

lemma in_assign_rows:
  "r \<in> set (assign_rows df n f) \<longleftrightarrow>
     (\<exists>r0 \<in> set df. r = (if room_number r0 = n then f r0 else r0))"
  unfolding set_assign_rows by blast

lemma select_rows_Nil: "select_rows df n = [] \<longleftrightarrow> (\<forall>r \<in> set df. room_number r \<noteq> n)"
  by (auto simp: select_rows_def filter_empty_conv)

lemma available_rooms_subset:
  "r \<in> set (available_rooms df) \<Longrightarrow> r \<in> set df \<and> is_available r"
  by (simp add: available_rooms_def is_available_def)

lemma create_booking_ledger_cases:
  "fst (create_booking now df b) = df
   \<or> fst (create_booking now df b) = assign_rows df (br_room_number b) (book_row b)"
  by (simp add: create_booking_def Let_def split: list.splits option.splits)

lemma create_booking_success_ledger:
  "create_booking now df b = (df', Inr resp) \<Longrightarrow>
   df' = assign_rows df (br_room_number b) (book_row b)"
  by (auto simp: create_booking_def Let_def split: list.splits if_splits option.splits)

lemma cancel_booking_found:
  "r \<in> set df \<Longrightarrow> room_number r = n \<Longrightarrow>
   cancel_booking df n =
     (assign_rows df n clear_row, Inr (''Booking cancelled for room '' @ str_int n))"
  by (auto simp: cancel_booking_def select_rows_Nil split: list.splits)

lemma cancel_booking_ledger_cases:
  "fst (cancel_booking df n) = df \<or> fst (cancel_booking df n) = assign_rows df n clear_row"
  by (simp add: cancel_booking_def split: list.splits)

subsection \<open>Evaluated samples\<close>

lemma parse_0710: "strptime ''2025-07-10'' = Some (2025, 7, 10)"
  by code_simp

lemma parse_0709: "strptime ''2025-07-09'' = Some (2025, 7, 9)"
  by code_simp

lemma parse_0712: "strptime ''2025-07-12'' = Some (2025, 7, 12)"
  by code_simp

lemma parse_0720: "strptime ''2025-07-20'' = Some (2025, 7, 20)"
  by code_simp

lemma parse_0801: "strptime ''2025-08-01'' = Some (2025, 8, 1)"
  by code_simp

lemma parse_0804: "strptime ''2025-08-04'' = Some (2025, 8, 4)"
  by code_simp

lemma sample_booking:
  "create_booking ''202507301015'' [room_101, room_201] (booking_of ''2025-08-01'' ''2025-08-04'')
   = ([book_row (booking_of ''2025-08-01'' ''2025-08-04'') room_101, room_201],
      Inr \<lparr>booking_id = ''BK7101202507301015'', guest_id = 7, resp_room_number = 101,
           resp_room_type = ''Deluxe'', resp_check_in_date = ''2025-08-01'',
           resp_check_out_date = ''2025-08-04'', number_of_adults = 2,
           purpose_of_visit = ''Leisure'', total_cost = Fin 10500,
           booking_status = ''Confirmed''\<rparr>)"
  by code_simp

subsection \<open>A booked room leaves the regular listing\<close>

text \<open>
  C3. After a successful \<open>create_booking\<close>, the number of the booked room is not among the
  room numbers that \<open>available_rooms\<close> returns for the resulting ledger.
\<close>

theorem create_booking_then_list_available:
  assumes "create_booking now df b = (df', Inr resp)"
  shows "br_room_number b \<notin> room_number ` set (available_rooms df')"
proof
  assume "br_room_number b \<in> room_number ` set (available_rooms df')"
  then obtain r where r: "r \<in> set (available_rooms df')" "room_number r = br_room_number b"
    by auto
  from r(1) have mem: "r \<in> set df'" and av: "is_available r"
    by (simp_all add: available_rooms_subset)
  from mem create_booking_success_ledger[OF assms]
  obtain r0 where "r0 \<in> set df"
    and eq: "r = (if room_number r0 = br_room_number b then book_row b r0 else r0)"
    by (auto simp: in_assign_rows)
  show False
  proof (cases "room_number r0 = br_room_number b")
    case True
    with eq av show False by simp
  next
    case False
    with eq r(2) show False by simp
  qed
qed

theorem create_booking_then_list_available_witness:
  "create_booking ''202507301015'' [room_101, room_201] (booking_of ''2025-08-01'' ''2025-08-04'')
   = ([book_row (booking_of ''2025-08-01'' ''2025-08-04'') room_101, room_201],
      Inr \<lparr>booking_id = ''BK7101202507301015'', guest_id = 7, resp_room_number = 101,
           resp_room_type = ''Deluxe'', resp_check_in_date = ''2025-08-01'',
           resp_check_out_date = ''2025-08-04'', number_of_adults = 2,
           purpose_of_visit = ''Leisure'', total_cost = Fin 10500,
           booking_status = ''Confirmed''\<rparr>)
   \<and> br_room_number (booking_of ''2025-08-01'' ''2025-08-04'')
       \<notin> room_number ` set (available_rooms
             [book_row (booking_of ''2025-08-01'' ''2025-08-04'') room_101, room_201])"
  using create_booking_then_list_available [OF sample_booking] sample_booking by simp

subsection \<open>The date-range listings\<close>

lemma rooms_for_dates_filter:
  "rooms_for_dates ci df =
     filter (\<lambda>r. \<not> is_reserved r \<and> (is_available r \<or> (\<not> is_available r \<and> frees_by ci r))) df"
  by (induction df) (auto simp: is_reserved_def is_available_def frees_by_def split: option.splits)

lemma rooms_for_dates_upselling_filter:
  "rooms_for_dates_upselling ci m df =
     map (upsell_dict m)
       (filter (\<lambda>r. is_available r \<or> (\<not> is_available r \<and> frees_by ci r)) df)"
  by (induction df) (auto simp: is_available_def frees_by_def split: option.splits)

lemma row_upsell_dict [simp]: "row (upsell_dict m r) = r"
  by (simp add: upsell_dict_def)

text \<open>
  C10. With the ledger and the check-in text fixed, any two check-out texts that parse
  give the same result, in the regular listing and in the upselling one.
\<close>

theorem for_dates_ignores_check_out:
  assumes "strptime check_out1 = Some d1" and "strptime check_out2 = Some d2"
  shows "available_rooms_for_dates df check_in check_out1
           = available_rooms_for_dates df check_in check_out2
         \<and> available_rooms_for_dates_with_upselling df check_in check_out1 m
           = available_rooms_for_dates_with_upselling df check_in check_out2 m"
  using assms
  by (simp add: available_rooms_for_dates_def available_rooms_for_dates_with_upselling_def
      split: option.splits)

theorem for_dates_ignores_check_out_witness:
  "strptime ''2025-07-12'' = Some (2025, 7, 12) \<and> strptime ''2025-07-20'' = Some (2025, 7, 20)
   \<and> available_rooms_for_dates [room_101, room_201, room_301] ''2025-07-10'' ''2025-07-12''
       = available_rooms_for_dates [room_101, room_201, room_301] ''2025-07-10'' ''2025-07-20''
   \<and> available_rooms_for_dates_with_upselling [room_101, room_201, room_301]
         ''2025-07-10'' ''2025-07-12'' (Fin 15)
       = available_rooms_for_dates_with_upselling [room_101, room_201, room_301]
         ''2025-07-10'' ''2025-07-20'' (Fin 15)"
  using for_dates_ignores_check_out [OF parse_0712 parse_0720] parse_0712 parse_0720
  by blast

subsection \<open>Freeing a room\<close>

text \<open>
  C7, as stated, fails for a room that is reserved for upselling: the regular listing
  leaves such rooms out.
\<close>

theorem free_room_reserved_not_listed:
  "snd (cancel_booking [room_401] 401) = Inr ''Booking cancelled for room 401''
   \<and> 401 \<notin> set (map room_number (available_rooms (fst (cancel_booking [room_401] 401))))"
  by code_simp

text \<open>
  C7, amended. When a row of room \<open>n\<close> is not reserved for upselling (its flag reads
  \<open>no\<close>), \<open>cancel_booking\<close> succeeds and the regular listing of the resulting ledger
  contains that row with status \<open>Available\<close> and with guest name, number of people,
  extra facility and both dates empty.
\<close>

theorem free_room_then_list_available:
  assumes "r \<in> set df" and "room_number r = n"
    and "lower (reserved_for_upselling r) = ''no''"
  shows "snd (cancel_booking df n) = Inr (''Booking cancelled for room '' @ str_int n)
         \<and> clear_row r \<in> set (available_rooms (fst (cancel_booking df n)))
         \<and> room_number (clear_row r) = n
         \<and> availability (clear_row r) = ''Available''
         \<and> name_of_guest (clear_row r) = [] \<and> number_of_people (clear_row r) = []
         \<and> extra_facility (clear_row r) = []
         \<and> check_in_date (clear_row r) = [] \<and> check_out_date (clear_row r) = []"
proof -
  have res: "cancel_booking df n =
      (assign_rows df n clear_row, Inr (''Booking cancelled for room '' @ str_int n))"
    using assms(1,2) by (rule cancel_booking_found)
  have "clear_row r \<in> set (assign_rows df n clear_row)"
    using assms(1,2) by (force simp: in_assign_rows)
  moreover have "lower (availability (clear_row r)) = ''available''"
    using clear_row_available [of r] by (simp add: is_available_def)
  ultimately have "clear_row r \<in> set (available_rooms (assign_rows df n clear_row))"
    using assms(3) by (simp add: available_rooms_def)
  then show ?thesis
    using assms(2) by (simp add: res) (simp add: clear_row_def)
qed

lemma room_201_no: "lower (reserved_for_upselling room_201) = ''no''"
  by code_simp

theorem free_room_then_list_available_witness:
  "room_201 \<in> set [room_101, room_201] \<and> room_number room_201 = 201
   \<and> lower (reserved_for_upselling room_201) = ''no''
   \<and> snd (cancel_booking [room_101, room_201] 201)
       = Inr (''Booking cancelled for room '' @ str_int 201)
   \<and> clear_row room_201 \<in> set (available_rooms (fst (cancel_booking [room_101, room_201] 201)))
   \<and> name_of_guest (clear_row room_201) = []
   \<and> check_in_date (clear_row room_201) = [] \<and> check_out_date (clear_row room_201) = []"
proof -
  have a: "room_201 \<in> set [room_101, room_201]" by simp
  have b: "room_number room_201 = 201" by (simp add: room_201_def)
  show ?thesis
    using free_room_then_list_available [OF a b room_201_no] a b room_201_no by simp
qed

subsection \<open>What the date-range listing returns\<close>

text \<open>
  C4, as stated, fails for the regular listing: an available room that is reserved for
  upselling belongs to the rooms the claim describes and is not returned.
\<close>

theorem for_dates_omits_reserved:
  "strptime ''2025-07-10'' = Some (2025, 7, 10)
   \<and> spec_list_available_for_range [room_301] (2025, 7, 10) = [room_301]
   \<and> available_rooms_for_dates [room_301] ''2025-07-10'' ''2025-07-12'' = Inr []
   \<and> available_rooms_for_dates [room_301] ''2025-07-10'' ''2025-07-12''
       \<noteq> Inr (spec_list_available_for_range [room_301] (2025, 7, 10))"
  by code_simp

text \<open>
  C4, amended. When both requested dates parse, the regular listing returns, in ledger
  order, exactly the rows that are not reserved for upselling and are either available
  or else hold a stored check-out date that parses and is on or before the requested
  check-in date; the upselling listing returns the rows described in the same way without
  the restriction on the reservation flag.
\<close>

theorem available_rooms_for_dates_exact:
  assumes "strptime check_in = Some ci" and "strptime check_out = Some co"
  shows "available_rooms_for_dates df check_in check_out =
           Inr (filter (\<lambda>r. \<not> is_reserved r
                            \<and> (is_available r \<or> (\<not> is_available r \<and> frees_by ci r))) df)
         \<and> (\<exists>rows. available_rooms_for_dates_with_upselling df check_in check_out m = Inr rows
               \<and> map row rows =
                   filter (\<lambda>r. is_available r \<or> (\<not> is_available r \<and> frees_by ci r)) df)"
  using assms
  by (simp add: available_rooms_for_dates_def available_rooms_for_dates_with_upselling_def
      rooms_for_dates_filter rooms_for_dates_upselling_filter comp_def)

lemma for_dates_0709:
  "available_rooms_for_dates [room_101, room_201, room_301] ''2025-07-09'' ''2025-07-12''
     = Inr [room_101]"
  by code_simp

lemma filter_sample_0710:
  "filter (\<lambda>r. \<not> is_reserved r
               \<and> (is_available r \<or> (\<not> is_available r \<and> frees_by (2025, 7, 10) r)))
     [room_101, room_201, room_301] = [room_101, room_201]"
  by code_simp

theorem available_rooms_for_dates_exact_witness:
  "strptime ''2025-07-10'' = Some (2025, 7, 10) \<and> strptime ''2025-07-12'' = Some (2025, 7, 12)
   \<and> available_rooms_for_dates [room_101, room_201, room_301] ''2025-07-10'' ''2025-07-12''
       = Inr [room_101, room_201]
   \<and> available_rooms_for_dates [room_101, room_201, room_301] ''2025-07-09'' ''2025-07-12''
       = Inr [room_101]"
  using available_rooms_for_dates_exact [OF parse_0710 parse_0712, of "[room_101, room_201, room_301]"]
    parse_0710 parse_0712 for_dates_0709 filter_sample_0710
  by simp

subsection \<open>The ledger invariant\<close>

lemma room_inv_book_row: "room_inv (book_row b r)"
  using book_row_not_available [of b r] by (simp add: room_inv_def) (simp add: book_row_def)

lemma room_inv_clear_row: "room_inv (clear_row r)"
  using clear_row_available [of r] by (simp add: room_inv_def) (simp add: clear_row_def)

lemma ledger_inv_assign_rows:
  "ledger_inv df \<Longrightarrow> (\<And>r. room_inv (f r)) \<Longrightarrow> ledger_inv (assign_rows df n f)"
  by (auto simp: ledger_inv_def list_all_iff in_assign_rows)

text \<open>
  \<open>create_booking\<close> and \<open>cancel_booking\<close> keep the invariant: if every row of the
  ledger satisfies it, then so does every row of the ledger they leave, whatever their
  arguments and outcome.
\<close>

lemma create_cancel_preserve_invariant:
  assumes "ledger_inv df"
  shows "ledger_inv (fst (create_booking now df b)) \<and> ledger_inv (fst (cancel_booking df n))"
proof
  show "ledger_inv (fst (create_booking now df b))"
  proof -
    have "ledger_inv (assign_rows df (br_room_number b) (book_row b))"
      by (rule ledger_inv_assign_rows [OF assms]) (rule room_inv_book_row)
    with create_booking_ledger_cases [of now df b] assms show ?thesis by auto
  qed
  show "ledger_inv (fst (cancel_booking df n))"
  proof -
    have "ledger_inv (assign_rows df n clear_row)"
      by (rule ledger_inv_assign_rows [OF assms]) (rule room_inv_clear_row)
    with cancel_booking_ledger_cases [of df n] assms show ?thesis by auto
  qed
qed

lemma sample_ledger_inv: "ledger_inv [room_101, room_201]"
  by code_simp

lemma create_cancel_preserve_invariant_sample:
  "ledger_inv [room_101, room_201]
   \<and> ledger_inv (fst (create_booking ''202507301015'' [room_101, room_201]
                        (booking_of ''2025-08-01'' ''2025-08-04'')))
   \<and> ledger_inv (fst (cancel_booking [room_101, room_201] 201))"
  using create_cancel_preserve_invariant [OF sample_ledger_inv] sample_ledger_inv by blast

text \<open>
  C1. The claim holds of the specification and not of the code: \<open>update_guest\<close> does not
  keep the invariant. On a ledger that satisfies it, the payload with which the staff
  interface frees a room (status \<open>Available\<close>, every other field empty, meant to clear
  them) is accepted and leaves room 201 with status \<open>Available\<close> and with its stored
  guest name, number of people, extra facility and both dates, because an empty field of
  the payload falls back to the stored value; the resulting ledger violates the
  invariant. \<open>cancel_booking\<close> on the same ledger clears all of these fields.
\<close>

theorem update_guest_breaks_invariant:
  "ledger_inv [room_201]
   \<and> update_guest [room_201] 201 (checkout_payload 201)
       = ([room_201\<lparr>availability := ''Available''\<rparr>], Inr ''Room 201 updated'')
   \<and> name_of_guest (room_201\<lparr>availability := ''Available''\<rparr>) = ''Guest_12''
   \<and> check_in_date (room_201\<lparr>availability := ''Available''\<rparr>) = ''2025-07-05''
   \<and> check_out_date (room_201\<lparr>availability := ''Available''\<rparr>) = ''2025-07-10''
   \<and> extra_facility (room_201\<lparr>availability := ''Available''\<rparr>) = ''Breakfast''
   \<and> \<not> ledger_inv (fst (update_guest [room_201] 201 (checkout_payload 201)))
   \<and> fst (cancel_booking [room_201] 201) = [clear_row room_201]
   \<and> ledger_inv (fst (cancel_booking [room_201] 201))"
  by code_simp

subsection \<open>Whole numbers are computed exactly\<close>

lemma round_half_even_of_int [simp]: "round_half_even (of_int i) = i"
  by (simp add: round_half_even_def Let_def)

lemma floor_log2_of_int: "0 < k \<Longrightarrow> floor_log2 (of_int k) = bitlen k - 1"
  by (simp add: floor_log2_def)

lemma pow2_nonpos: "e \<le> 0 \<Longrightarrow> pow2 e = 1 / 2 ^ nat (- e)"
  by (cases "e = 0") (simp_all add: pow2_def)

lemma bitlen_small:
  assumes "0 < j" and "j < 2 ^ 53"
  shows "0 \<le> bitlen j - 1 \<and> bitlen j - 1 \<le> 52"
proof -
  from bitlen_bounds [OF assms(1)]
  have lo: "(2::int) ^ nat (bitlen j - 1) \<le> j" by simp
  have pos: "1 \<le> bitlen j" using assms(1) by (simp add: bitlen_alt_def)
  have lt: "(2::int) ^ nat (bitlen j - 1) < 2 ^ 53"
    using lo assms(2) by (rule le_less_trans)
  have "nat (bitlen j - 1) < 53"
    by (rule power_less_imp_less_exp [OF _ lt]) simp
  with pos show ?thesis by linarith
qed

lemma round64_of_nat_int:
  fixes s :: rat
  assumes "0 < j" and "j < 2 ^ 53" and that: "s = 1 \<or> s = - 1"
  shows "round64 (s * of_int j) = Fin (s * of_int j)"
proof -
  define e where "e = bitlen j - 1"
  define n where "n = nat (52 - e)"
  have e: "0 \<le> e" "e \<le> 52" using bitlen_small [OF assms(1,2)] by (simp_all add: e_def)
  have abs: "\<bar>s * of_int j\<bar> = (of_int j :: rat)" using that assms(1) by (auto simp: abs_mult)
  have fl: "floor_log2 (of_int j) = e" using assms(1) by (simp add: floor_log2_of_int e_def)
  have mx: "max e (- 1022) = e" using e by simp
  have pw: "pow2 (e - 52) = 1 / 2 ^ n" using e by (simp add: pow2_nonpos n_def)
  have q: "(of_int j :: rat) / pow2 (e - 52) = of_int (j * 2 ^ n)" by (simp add: pw)
  have nz: "s * of_int j \<noteq> 0" using that assms(1) by auto
  have sg: "(if 0 < s * of_int j then 1 else - 1) = s" using that assms(1) by auto
  have "round64 (s * of_int j) = Fin (s * of_int (j * 2 ^ n) * pow2 (e - 52))"
    using nz e unfolding round64_def abs Let_def fl mx q round_half_even_of_int sg by simp
  also have "s * of_int (j * 2 ^ n) * pow2 (e - 52) = s * of_int j" by (simp add: pw)
  finally show ?thesis .
qed

lemma round64_of_int:
  assumes "\<bar>k\<bar> < 2 ^ 53"
  shows "round64 (of_int k) = Fin (of_int k)"
proof (cases "k = 0")
  case True
  then show ?thesis by (simp add: round64_def)
next
  case False
  show ?thesis
  proof (cases "0 < k")
    case True
    with assms round64_of_nat_int [of k 1] show ?thesis by simp
  next
    case neg: False
    with False assms round64_of_nat_int [of "- k" "- 1"] show ?thesis by simp
  qed
qed

lemma fmul_of_int:
  "\<bar>p * n\<bar> < 2 ^ 53 \<Longrightarrow> fmul (Fin (of_int p)) (Fin (of_int n)) = Fin (of_int (p * n))"
  using round64_of_int [of "p * n"] by simp

subsection \<open>Parsed dates and their ordinals\<close>

lemma in_range_val: "in_range c lo hi \<Longrightarrow> lo \<le> digit_val c \<and> digit_val c \<le> hi"
  by (simp add: in_range_def)

lemma match_month_range: "match_month s = Some (m, r) \<Longrightarrow> 1 \<le> m \<and> m \<le> 12"
  by (cases s rule: match_month.cases) (auto split: if_splits dest!: in_range_val)

lemma match_day_range: "match_day s = Some (d, r) \<Longrightarrow> 1 \<le> d"
  by (cases s rule: match_day.cases) (auto split: if_splits dest!: in_range_val)


lemma strptime_valid: "strptime s = Some dt \<Longrightarrow> valid_date dt"
  unfolding strptime_def valid_date_def
  by (simp add: Let_def split: list.splits if_splits option.splits prod.splits)
     (auto dest: match_month_range match_day_range)


lemma days_before_year_Suc_eq:
  "days_before_year (Suc y) = int y * 365 + int (y div 4) - int (y div 100) + int (y div 400)"
  by (simp add: days_before_year_def Let_def zdiv_int)

lemma dvd_100_4: "(100::nat) dvd n \<Longrightarrow> 4 dvd n"
  by (rule dvd_trans [of 4 100]) simp_all

lemma dvd_400_100: "(400::nat) dvd n \<Longrightarrow> 100 dvd n"
  by (rule dvd_trans [of 100 400]) simp_all

lemma is_leap_dvd: "is_leap y \<longleftrightarrow> 4 dvd y \<and> (\<not> 100 dvd y \<or> 400 dvd y)"
  by (simp add: is_leap_def mod_eq_0_iff_dvd)

lemma days_before_year_step:
  "days_before_year (Suc (Suc k)) =
     days_before_year (Suc k) + 365 + (if is_leap (Suc k) then 1 else 0)"
proof -
  define n where "n = Suc k"
  define p4 where "p4 \<longleftrightarrow> 4 dvd n"
  define p100 where "p100 \<longleftrightarrow> 100 dvd n"
  define p400 where "p400 \<longleftrightarrow> 400 dvd n"
  have a: "int (n div 4) = int (k div 4) + (if p4 then 1 else 0)"
    by (simp add: n_def p4_def div_Suc mod_eq_0_iff_dvd)
  have b: "int (n div 100) = int (k div 100) + (if p100 then 1 else 0)"
    by (simp add: n_def p100_def div_Suc mod_eq_0_iff_dvd)
  have c: "int (n div 400) = int (k div 400) + (if p400 then 1 else 0)"
    by (simp add: n_def p400_def div_Suc mod_eq_0_iff_dvd)
  have i1: "p100 \<Longrightarrow> p4" unfolding p100_def p4_def by (rule dvd_100_4)
  have i2: "p400 \<Longrightarrow> p100" unfolding p400_def p100_def by (rule dvd_400_100)
  have leap: "is_leap n \<longleftrightarrow> p4 \<and> (\<not> p100 \<or> p400)"
    by (simp add: is_leap_dvd p4_def p100_def p400_def)
  have nk: "int n = int k + 1" by (simp add: n_def)
  have "days_before_year (Suc n) = days_before_year n + 365 + (if is_leap n then 1 else 0)"
    unfolding days_before_year_Suc_eq [of n] a b c leap
    unfolding n_def days_before_year_Suc_eq [of k] nk [unfolded n_def]
    using i1 i2 by (cases p4; cases p100; cases p400; simp)
  then show ?thesis by (simp add: n_def)
qed


lemma days_before_year_Suc:
  "1 \<le> y \<Longrightarrow> days_before_year (Suc y) = days_before_year y + 365 + (if is_leap y then 1 else 0)"
  using days_before_year_step [of "y - 1"] by simp

lemma days_before_year_next:
  "1 \<le> y1 \<Longrightarrow> y1 < y2 \<Longrightarrow>
   days_before_year y1 + 365 + (if is_leap y1 then 1 else 0) \<le> days_before_year y2"
proof (induction y2)
  case 0
  then show ?case by simp
next
  case (Suc y2)
  show ?case
  proof (cases "y1 = y2")
    case True
    with Suc.prems show ?thesis by (simp add: days_before_year_Suc)
  next
    case False
    with Suc.prems have "y1 < y2" by simp
    from Suc.IH [OF Suc.prems(1) this] Suc.prems
    show ?thesis by (simp add: days_before_year_Suc)
  qed
qed

lemma month_cases:
  assumes "1 \<le> m" and "m \<le> (12::nat)"
  shows "m = 1 \<or> m = 2 \<or> m = 3 \<or> m = 4 \<or> m = 5 \<or> m = 6
         \<or> m = 7 \<or> m = 8 \<or> m = 9 \<or> m = 10 \<or> m = 11 \<or> m = 12"
  using assms by arith

lemma days_before_month_Suc:
  assumes "1 \<le> m" and "m < 12"
  shows "days_before_month y (Suc m) = days_before_month y m + int (days_in_month y m)"
proof -
  from assms have "m = 1 \<or> m = 2 \<or> m = 3 \<or> m = 4 \<or> m = 5 \<or> m = 6
         \<or> m = 7 \<or> m = 8 \<or> m = 9 \<or> m = 10 \<or> m = 11" by arith
  then show ?thesis
    by (elim disjE)
      (simp_all add: days_before_month_def days_in_month_def DAYS_BEFORE_MONTH_def
        DAYS_IN_MONTH_def eval_nat_numeral)
qed

lemma days_before_month_last:
  "days_before_month y 12 + int (days_in_month y 12) = 365 + (if is_leap y then 1 else 0)"
  by (simp add: days_before_month_def days_in_month_def DAYS_BEFORE_MONTH_def
      DAYS_IN_MONTH_def)

lemma days_before_month_first: "days_before_month y 1 = 0"
  by (simp add: days_before_month_def DAYS_BEFORE_MONTH_def)

lemma days_before_month_next:
  "1 \<le> m1 \<Longrightarrow> m1 < m2 \<Longrightarrow> m2 \<le> 12 \<Longrightarrow>
   days_before_month y m1 + int (days_in_month y m1) \<le> days_before_month y m2"
proof (induction m2)
  case 0
  then show ?case by simp
next
  case (Suc m2)
  show ?case
  proof (cases "m1 = m2")
    case True
    with Suc.prems show ?thesis by (simp add: days_before_month_Suc)
  next
    case False
    with Suc.prems have lt: "m1 < m2" and le: "m2 \<le> 12" and m2: "1 \<le> m2" "m2 < 12" by simp_all
    from Suc.IH [OF Suc.prems(1) lt le] m2 show ?thesis
      by (simp add: days_before_month_Suc)
  qed
qed

lemma day_of_year_bound:
  assumes "1 \<le> m" and "m \<le> 12" and "d \<le> days_in_month y m"
  shows "days_before_month y m + int d \<le> 365 + (if is_leap y then 1 else 0)"
proof (cases "m = 12")
  case True
  with assms(3) days_before_month_last [of y] show ?thesis by simp
next
  case False
  with assms have "m < 12" by simp
  from days_before_month_next [OF assms(1) this, of y] days_before_month_last [of y] assms(3)
  show ?thesis by simp
qed

lemma days_before_month_nonneg: "0 \<le> days_before_month y m"
  by (simp add: days_before_month_def)

lemma toordinal_less:
  assumes "valid_date a" and "valid_date b" and "\<not> date_le b a"
  shows "toordinal a < toordinal b"
proof -
  obtain y1 m1 d1 where a: "a = (y1, m1, d1)" by (cases a) auto
  obtain y2 m2 d2 where b: "b = (y2, m2, d2)" by (cases b) auto
  from assms(1) a have va: "1 \<le> y1" "1 \<le> m1" "m1 \<le> 12" "1 \<le> d1" "d1 \<le> days_in_month y1 m1"
    by (simp_all add: valid_date_def)
  from assms(2) b have vb: "1 \<le> y2" "1 \<le> m2" "m2 \<le> 12" "1 \<le> d2" "d2 \<le> days_in_month y2 m2"
    by (simp_all add: valid_date_def)
  from assms(3) a b
  have "y1 < y2 \<or> (y1 = y2 \<and> m1 < m2) \<or> (y1 = y2 \<and> m1 = m2 \<and> d1 < d2)"
    by (simp add: date_le_def) arith
  then consider "y1 < y2" | "y1 = y2" "m1 < m2" | "y1 = y2" "m1 = m2" "d1 < d2"
    by blast
  then show ?thesis
  proof cases
    case 1
    from day_of_year_bound [OF va(2,3,5)] days_before_year_next [OF va(1) 1]
      days_before_month_nonneg [of y2 m2] vb(4)
    show ?thesis by (simp add: a b toordinal_def)
  next
    case 2
    from days_before_month_next [OF va(2) 2(2) vb(3), of y1] va(5) vb(4) 2(1)
    show ?thesis by (simp add: a b toordinal_def)
  next
    case 3
    then show ?thesis by (simp add: a b toordinal_def)
  qed
qed

lemma date_le_total: "date_le a b \<or> date_le b a"
  by (cases a; cases b) (auto simp: date_le_def)

lemma date_le_antisym: "date_le a b \<Longrightarrow> date_le b a \<Longrightarrow> a = b"
  by (cases a; cases b) (simp add: date_le_def, arith)

lemma toordinal_le:
  assumes "valid_date a" and "valid_date b" and "date_le a b"
  shows "toordinal a \<le> toordinal b"
proof (cases "date_le b a")
  case True
  with assms(3) have "a = b" by (simp add: date_le_antisym)
  then show ?thesis by simp
next
  case False
  from toordinal_less [OF assms(1,2) False] show ?thesis by simp
qed

text \<open>
  For two dates that \<open>strptime\<close> returns, the number of nights is positive exactly when
  the check-out date is strictly after the check-in date.
\<close>

lemma nights_positive_iff:
  assumes "strptime check_in = Some ci" and "strptime check_out = Some co"
  shows "0 < days_between co ci \<longleftrightarrow> \<not> date_le co ci"
proof -
  have v: "valid_date ci" "valid_date co"
    using assms by (simp_all add: strptime_valid)
  show ?thesis
  proof (cases "date_le co ci")
    case True
    from toordinal_le [OF v(2,1) True] True show ?thesis by (simp add: days_between_def)
  next
    case False
    from toordinal_less [OF v(1,2) False] False show ?thesis by (simp add: days_between_def)
  qed
qed

subsection \<open>The cost of a booking\<close>

lemma create_booking_success_cost:
  assumes "create_booking now df b = (df', Inr resp)"
  shows "\<exists>row0 others ci co.
           select_rows df (br_room_number b) = row0 # others
           \<and> strptime (br_check_in_date b) = Some ci
           \<and> strptime (br_check_out_date b) = Some co
           \<and> total_cost resp = fmul (Fin (price row0)) (Fin (of_int (days_between co ci)))"
  using assms
  by (auto simp: create_booking_def Let_def split: list.splits if_splits option.splits)



text \<open>
  For a whole-number price the product is exact as long as it stays below \<open>2^53\<close> in
  magnitude.
\<close>

lemma create_booking_total_cost_exact:
  assumes "create_booking now df b = (df', Inr resp)"
    and "select_rows df (br_room_number b) = row0 # others"
    and "price row0 = of_int p"
    and "strptime (br_check_in_date b) = Some ci"
    and "strptime (br_check_out_date b) = Some co"
    and "\<bar>p * days_between co ci\<bar> < 2 ^ 53"
  shows "total_cost resp = Fin (of_int (p * days_between co ci))"
  using create_booking_success_cost [OF assms(1)] assms(2-5) fmul_of_int [OF assms(6)]
  by simp

subsection \<open>No check of the date order\<close>

text \<open>
  C2. The claim holds of the specification and not of the code: \<open>create_booking\<close> never
  compares the two dates. With the check-out date three days before the check-in date
  the booking is confirmed at a negative total cost, and with equal dates at cost zero;
  in both cases the room is marked as booked.
\<close>

theorem create_booking_reversed_dates:
  "create_booking ''202507301015'' [room_101] (booking_of ''2025-08-04'' ''2025-08-01'')
   = ([book_row (booking_of ''2025-08-04'' ''2025-08-01'') room_101],
      Inr \<lparr>booking_id = ''BK7101202507301015'', guest_id = 7, resp_room_number = 101,
           resp_room_type = ''Deluxe'', resp_check_in_date = ''2025-08-04'',
           resp_check_out_date = ''2025-08-01'', number_of_adults = 2,
           purpose_of_visit = ''Leisure'', total_cost = Fin (- 10500),
           booking_status = ''Confirmed''\<rparr>)
   \<and> create_booking ''202507301015'' [room_101] (booking_of ''2025-08-01'' ''2025-08-01'')
   = ([book_row (booking_of ''2025-08-01'' ''2025-08-01'') room_101],
      Inr \<lparr>booking_id = ''BK7101202507301015'', guest_id = 7, resp_room_number = 101,
           resp_room_type = ''Deluxe'', resp_check_in_date = ''2025-08-01'',
           resp_check_out_date = ''2025-08-01'', number_of_adults = 2,
           purpose_of_visit = ''Leisure'', total_cost = Fin 0,
           booking_status = ''Confirmed''\<rparr>)"
  by code_simp

text \<open>
  In general, a request for an existing available room whose two dates parse is
  confirmed, whatever the order of the dates; when the check-out date is not after the
  check-in date, the number of nights that is charged is zero or negative.
\<close>

lemma create_booking_confirms_any_order:
  assumes "select_rows df (br_room_number b) = row0 # others" and "is_available row0"
    and "strptime (br_check_in_date b) = Some ci" and "strptime (br_check_out_date b) = Some co"
  shows "\<exists>resp. create_booking now df b
                  = (assign_rows df (br_room_number b) (book_row b), Inr resp)
           \<and> booking_status resp = ''Confirmed''
           \<and> total_cost resp = fmul (Fin (price row0)) (Fin (of_int (days_between co ci)))"
  using assms by (simp add: create_booking_def Let_def is_available_def)

lemma create_booking_not_after:
  assumes "select_rows df (br_room_number b) = row0 # others" and "is_available row0"
    and "strptime (br_check_in_date b) = Some ci" and "strptime (br_check_out_date b) = Some co"
    and "date_le co ci"
  shows "\<exists>resp nights. create_booking now df b
                  = (assign_rows df (br_room_number b) (book_row b), Inr resp)
           \<and> booking_status resp = ''Confirmed'' \<and> nights \<le> 0
           \<and> total_cost resp = fmul (Fin (price row0)) (Fin (of_int nights))"
proof -
  have "days_between co ci \<le> 0"
    using nights_positive_iff [OF assms(3,4)] assms(5) by simp
  with create_booking_confirms_any_order [OF assms(1-4), of now] show ?thesis by blast
qed

subsection \<open>The upselling listing\<close>

lemma json_num_Fin [simp]: "json_num (Fin x) = JFloat (Fin x)"
  by (simp add: json_num_def)

text \<open>
  C6. For every available row reserved for upselling and every markup, the upselling
  listing has an entry for that row whose price is the floating-point value of
  \<open>original * (1 + markup / 100)\<close> (passed through \<open>_json_ready\<close>) and whose original
  price is the price of the row.
\<close>

theorem upselling_listing_price:
  assumes "r \<in> set df" and "is_available r" and "is_reserved r"
  shows "\<exists>v \<in> set (available_rooms_with_upselling df m).
           row v = r
           \<and> Price v = json_num (fmul (Fin (price r)) (fadd (Fin 1) (fdiv_by 100 m)))
           \<and> original_price v = JFloat (Fin (price r))"
proof -
  have "upsell_dict m r \<in> set (available_rooms_with_upselling df m)"
    using assms(1,2) by (simp add: available_rooms_with_upselling_def is_available_def)
  moreover have "row (upsell_dict m r) = r" by simp
  moreover have "Price (upsell_dict m r)
      = json_num (fmul (Fin (price r)) (fadd (Fin 1) (fdiv_by 100 m)))"
    using assms(3) by (simp add: upsell_dict_def is_reserved_def markup_price_def)
  moreover have "original_price (upsell_dict m r) = JFloat (Fin (price r))"
    using assms(3) by (simp add: upsell_dict_def is_reserved_def)
  ultimately show ?thesis by blast
qed

lemma markup_5000_15: "fmul (Fin 5000) (fadd (Fin 1) (fdiv_by 100 (Fin 15))) = Fin 5750"
  by code_simp

lemma room_301_flags: "is_available room_301 \<and> is_reserved room_301 \<and> price room_301 = 5000"
  by code_simp

theorem upselling_listing_price_witness:
  "room_301 \<in> set [room_101, room_301] \<and> is_available room_301 \<and> is_reserved room_301
   \<and> price room_301 = 5000
   \<and> (\<exists>v \<in> set (available_rooms_with_upselling [room_101, room_301] (Fin 15)).
         row v = room_301 \<and> Price v = JFloat (Fin 5750) \<and> original_price v = JFloat (Fin 5000))"
proof -
  have a: "room_301 \<in> set [room_101, room_301]" by simp
  note f = room_301_flags
  from upselling_listing_price [OF a, of "Fin 15"] f
  have "\<exists>v \<in> set (available_rooms_with_upselling [room_101, room_301] (Fin 15)).
         row v = room_301
         \<and> Price v = json_num (fmul (Fin 5000) (fadd (Fin 1) (fdiv_by 100 (Fin 15))))
         \<and> original_price v = JFloat (Fin 5000)"
    by simp
  then show ?thesis using a f by (simp add: markup_5000_15)
qed

subsection \<open>The lifestyle bundle\<close>

lemma any_in_nonempty: "any_in s ws \<Longrightarrow> [] \<notin> set ws \<Longrightarrow> s \<noteq> []"
  by (auto simp: any_in_def list_ex_iff)

lemma wellness_focus_profession [simp]:
  "wellness_focus (profession_rules p l) = wellness_focus l"
  by (simp add: profession_rules_def)

lemma activity_level_profession [simp]:
  "activity_level (profession_rules p l) = activity_level l"
  by (simp add: profession_rules_def)

lemma wellness_focus_wellness:
  "wellness_focus (amenity_wellness am l) =
     (if any_in am [''spa'', ''massage'', ''wellness'', ''gym'', ''fitness''] then ''high''
      else wellness_focus l)"
  by (simp add: amenity_wellness_def)

lemma activity_level_wellness:
  "activity_level (amenity_wellness am l) =
     (if any_in am [''spa'', ''massage'', ''wellness'', ''gym'', ''fitness''] then ''high''
      else activity_level l)"
  by (simp add: amenity_wellness_def)

lemma wellness_focus_pool [simp]: "wellness_focus (amenity_pool am l) = wellness_focus l"
  by (simp add: amenity_pool_def)

lemma activity_level_pool:
  "activity_level (amenity_pool am l) =
     (if any_in am [''pool'', ''swimming''] then ''moderate-high'' else activity_level l)"
  by (simp add: amenity_pool_def)

lemma wellness_focus_business [simp]: "wellness_focus (amenity_business am l) = wellness_focus l"
  by (simp add: amenity_business_def)

lemma activity_level_business [simp]: "activity_level (amenity_business am l) = activity_level l"
  by (simp add: amenity_business_def)

lemma wellness_focus_activity [simp]: "wellness_focus (activity_rules act l) = wellness_focus l"
  by (simp add: activity_rules_def activity_dining_def activity_adventure_def activity_tour_def)

lemma activity_level_activity:
  "activity_level (activity_rules act l) =
     (if act \<noteq> [] \<and> any_in act [''adventure'', ''sports'', ''hiking''] then ''high''
      else activity_level l)"
  by (simp add: activity_rules_def activity_dining_def activity_adventure_def activity_tour_def)

lemma wellness_focus_high:
  assumes "any_in am [''spa'', ''massage'', ''wellness'', ''gym'', ''fitness'']"
  shows "wellness_focus (analyze_lifestyle prof am act) = ''high''"
proof -
  have ne: "am \<noteq> []" using any_in_nonempty [OF assms] by simp
  show ?thesis
    unfolding analyze_lifestyle_def amenity_rules_def
    using assms ne by (simp add: wellness_focus_wellness)
qed

lemma activity_level_with_wellness:
  assumes "any_in am [''spa'', ''massage'', ''wellness'', ''gym'', ''fitness'']"
  shows "activity_level (analyze_lifestyle prof am act) =
           (if act \<noteq> [] \<and> any_in act [''adventure'', ''sports'', ''hiking''] then ''high''
            else if any_in am [''pool'', ''swimming''] then ''moderate-high''
            else ''high'')"
proof -
  have ne: "am \<noteq> []" using any_in_nonempty [OF assms] by simp
  show ?thesis
    unfolding analyze_lifestyle_def amenity_rules_def
    using assms ne
    by (simp add: activity_level_activity activity_level_pool activity_level_wellness)
qed


lemma spa_in_spa_pool:
  "any_in (lower (amenities_used guest_spa_pool))
     [''spa'', ''massage'', ''wellness'', ''gym'', ''fitness'']"
  by code_simp

lemma pool_in_spa_pool: "any_in (lower (amenities_used guest_spa_pool)) [''pool'', ''swimming'']"
  by code_simp

lemma spa_in_spa:
  "any_in (lower (amenities_used guest_spa))
     [''spa'', ''massage'', ''wellness'', ''gym'', ''fitness'']"
  by code_simp

lemma pool_not_in_spa: "\<not> any_in (lower (amenities_used guest_spa)) [''pool'', ''swimming'']"
  by code_simp

text \<open>
  C8. The claim holds of the specification and not of the code. For a guest whose
  amenities are \<open>Spa, Pool\<close> the wellness focus is high, and the activity level, set to
  high by the wellness keywords, is then overwritten with \<open>moderate-high\<close> by the pool
  keywords; with \<open>Spa\<close> alone it is high.
\<close>

theorem lifestyle_spa_pool:
  "any_in (lower (amenities_used guest_spa_pool))
     [''spa'', ''massage'', ''wellness'', ''gym'', ''fitness'']
   \<and> wellness_focus (lifestyle_profile guest_spa_pool) = ''high''
   \<and> activity_level (lifestyle_profile guest_spa_pool) = ''moderate-high''
   \<and> activity_level (lifestyle_profile guest_spa) = ''high''"
proof -
  have act: "lower (extra_activities_booked guest_spa_pool) = []"
    "lower (extra_activities_booked guest_spa) = []"
    by (simp_all add: guest_spa_pool_def guest_spa_def lower_def)
  show ?thesis
    using spa_in_spa_pool pool_in_spa_pool spa_in_spa pool_not_in_spa act
    by (simp add: lifestyle_profile_def wellness_focus_high activity_level_with_wellness)
qed

subsection \<open>The satisfaction bundle\<close>

lemma length_lower [simp]: "length (lower s) = length s"
  by (simp add: lower_def)

lemma lower_Nil_iff [simp]: "lower s = [] \<longleftrightarrow> s = []"
  by (simp add: lower_def)

text \<open>
  C9, as stated, fails on the code: special requests of 20 characters give
  \<open>moderate\<close>, and of 26 characters \<open>high\<close>, where the claim gives \<open>moderate-high\<close> for
  both.
\<close>

theorem attention_to_detail_differs:
  "length ''Late checkout please'' = 20
   \<and> attention_to_detail (satisfaction_insights (guest_requests ''Late checkout please''))
       = ''moderate''
   \<and> spec_attention_to_detail ''Late checkout please'' = ''moderate-high''
   \<and> length ''Quiet room on a high floor'' = 26
   \<and> attention_to_detail (satisfaction_insights (guest_requests ''Quiet room on a high floor''))
       = ''high''
   \<and> spec_attention_to_detail ''Quiet room on a high floor'' = ''moderate-high''
   \<and> attention_to_detail (satisfaction_insights (guest_requests ''Late checkout please''))
       \<noteq> spec_attention_to_detail (special_requests (guest_requests ''Late checkout please''))"
  by code_simp

text \<open>
  C9, amended. For every guest record, the attention to detail of the satisfaction
  bundle is \<open>high\<close> when the special-requests text is longer than 20 characters and
  \<open>moderate\<close> otherwise.
\<close>

theorem attention_to_detail_rule:
  "attention_to_detail (satisfaction_insights g)
     = (if 20 < length (special_requests g) then ''high'' else ''moderate'')"
  by (auto simp: satisfaction_insights_def analyze_satisfaction_def)

end
